theory Spec2Isabelle
  imports Main
begin

section \<open>Python values used by the models and the writers\<close>

text \<open>
  The exceptions that the modelled code can raise. Every raise of the source is a
  branch returning \<open>Inl\<close> of one of them.
\<close>

datatype py_error =
    AssertionError
  | TypeError
  | ValueError
  | OverflowError
  | AttributeError
  | OSError

subsection \<open>Floats\<close>

text \<open>
  A Python float is represented by the decimal numeral that \<open>repr\<close> prints for it:
  \<open>Fin neg m e\<close> stands for \<open>(-1)^neg * m * 10^e\<close>, so the literal \<open>16.84\<close> is
  \<open>Fin False 1684 (-2)\<close>. The sign is kept apart because Python has a negative zero.
  The code under study only converts to float, compares a float with itself, compares
  it with \<open>0.0\<close> and prints it; the binary rounding of a literal to the nearest double
  is not modelled, overflow to infinity and underflow to zero are.
\<close>

datatype pyfloat = Fin bool nat int | Inf bool | NaN

definition signed_mant :: "bool \<Rightarrow> nat \<Rightarrow> int" where
  "signed_mant neg m = (if neg then - int m else int m)"

definition dec_less :: "int \<Rightarrow> int \<Rightarrow> int \<Rightarrow> int \<Rightarrow> bool" where
  "dec_less m1 e1 m2 e2 =
     (let lo = min e1 e2
      in m1 * 10 ^ nat (e1 - lo) < m2 * 10 ^ nat (e2 - lo))"

definition dec_eq :: "int \<Rightarrow> int \<Rightarrow> int \<Rightarrow> int \<Rightarrow> bool" where
  "dec_eq m1 e1 m2 e2 =
     (let lo = min e1 e2
      in m1 * 10 ^ nat (e1 - lo) = m2 * 10 ^ nat (e2 - lo))"

text \<open>Python's \<open>a == b\<close> on floats: a not-a-number is unequal to everything, itself included.\<close>

fun float_eq :: "pyfloat \<Rightarrow> pyfloat \<Rightarrow> bool" where
  "float_eq NaN _ = False"
| "float_eq _ NaN = False"
| "float_eq (Inf a) (Inf b) = (a = b)"
| "float_eq (Inf _) (Fin _ _ _) = False"
| "float_eq (Fin _ _ _) (Inf _) = False"
| "float_eq (Fin n1 m1 e1) (Fin n2 m2 e2) =
     dec_eq (signed_mant n1 m1) e1 (signed_mant n2 m2) e2"

text \<open>Python's \<open>a > b\<close> on floats: every comparison with a not-a-number is false.\<close>

fun float_gt :: "pyfloat \<Rightarrow> pyfloat \<Rightarrow> bool" where
  "float_gt NaN _ = False"
| "float_gt _ NaN = False"
| "float_gt (Inf a) (Inf b) = (\<not> a \<and> b)"
| "float_gt (Inf a) (Fin _ _ _) = (\<not> a)"
| "float_gt (Fin _ _ _) (Inf b) = b"
| "float_gt (Fin n1 m1 e1) (Fin n2 m2 e2) =
     dec_less (signed_mant n2 m2) e2 (signed_mant n1 m1) e1"

subsection \<open>Printing numbers\<close>

definition digit_char :: "nat \<Rightarrow> char" where
  "digit_char d = ''0123456789'' ! (d mod 10)"

function str_nat :: "nat \<Rightarrow> string" where
  "str_nat n = (if n < 10 then [digit_char n] else str_nat (n div 10) @ [digit_char (n mod 10)])"
  by pat_completeness auto
termination
  by (relation "measure id") auto

declare str_nat.simps [simp del]

text \<open>\<open>str(i)\<close> for a Python int.\<close>

definition str_int :: "int \<Rightarrow> string" where
  "str_int i = (if i < 0 then CHR ''-'' # str_nat (nat (- i)) else str_nat (nat i))"

text \<open>Zero padding on the left, as \<open>%02d\<close> and \<open>%04d\<close> do: longer numbers are not cut.\<close>

definition zpad :: "nat \<Rightarrow> nat \<Rightarrow> string" where
  "zpad w n = replicate (w - length (str_nat n)) CHR ''0'' @ str_nat n"

text \<open>Trailing zeros of the mantissa move into the exponent; zero has exponent 0.\<close>

function strip_zeros :: "nat \<Rightarrow> int \<Rightarrow> nat \<times> int" where
  "strip_zeros m e =
     (if m = 0 then (0, 0)
      else if m mod 10 = 0 then strip_zeros (m div 10) (e + 1)
      else (m, e))"
  by pat_completeness auto
termination
  by (relation "measure fst") auto

declare strip_zeros.simps [simp del]

text \<open>
  \<open>repr(x)\<close> of a float (also \<open>str(x)\<close> and what an f-string prints): the shortest digits,
  in fixed notation when the decimal point lies within \<open>-4 < decpt \<le> 16\<close>, in exponent
  notation otherwise, with \<open>.0\<close> added to an integral value.
\<close>

definition repr_finite :: "nat \<Rightarrow> int \<Rightarrow> string" where
  "repr_finite m e =
     (let (m', e') = strip_zeros m e;
          ds = str_nat m';
          n = int (length ds);
          decpt = n + e'
      in if decpt \<le> -4 \<or> decpt > 16 then
           (let x = decpt - 1
            in take 1 ds @ (if n > 1 then CHR ''.'' # drop 1 ds else [])
               @ ''e'' @ (if x < 0 then ''-'' else ''+'') @ zpad 2 (nat \<bar>x\<bar>))
         else if decpt \<le> 0 then
           ''0.'' @ replicate (nat (- decpt)) CHR ''0'' @ ds
         else if decpt \<ge> n then
           ds @ replicate (nat (decpt - n)) CHR ''0'' @ ''.0''
         else
           take (nat decpt) ds @ CHR ''.'' # drop (nat decpt) ds)"

fun float_repr :: "pyfloat \<Rightarrow> string" where
  "float_repr NaN = ''nan''"
| "float_repr (Inf neg) = (if neg then ''-inf'' else ''inf'')"
| "float_repr (Fin neg m e) = (if neg then CHR ''-'' # repr_finite m e else repr_finite m e)"

subsection \<open>Dynamically typed values\<close>

text \<open>
  The constructors take their arguments unchecked, so an attribute can hold any value
  the caller passed. The scalar values of Python are modelled; containers and user
  objects as attribute values are outside the model.
\<close>

datatype pyval = PNone | PBool bool | PInt int | PFloat pyfloat | PStr string

text \<open>Truth value testing, as \<open>if x:\<close> does it.\<close>

fun truthy :: "pyval \<Rightarrow> bool" where
  "truthy PNone = False"
| "truthy (PBool b) = b"
| "truthy (PInt i) = (i \<noteq> 0)"
| "truthy (PFloat x) = (\<not> float_eq x (Fin False 0 0))"
| "truthy (PStr s) = (s \<noteq> [])"

text \<open>\<open>str(x)\<close>, which is also what \<open>{x}\<close> in an f-string prints for these types.\<close>

fun py_str :: "pyval \<Rightarrow> string" where
  "py_str PNone = ''None''"
| "py_str (PBool b) = (if b then ''True'' else ''False'')"
| "py_str (PInt i) = str_int i"
| "py_str (PFloat x) = float_repr x"
| "py_str (PStr s) = s"

subsection \<open>Conversion to float\<close>

definition is_digit :: "char \<Rightarrow> bool" where
  "is_digit c = (c \<in> set ''0123456789'')"

definition digit_val :: "char \<Rightarrow> nat" where
  "digit_val c = of_char c - 48"

definition nat_of_digits :: "string \<Rightarrow> nat" where
  "nat_of_digits ds = foldl (\<lambda>acc c. 10 * acc + digit_val c) 0 ds"

text \<open>
  The whitespace that \<open>float\<close> drops around a literal: the six ASCII whitespace
  characters and, of the other code points below 256, the two Unicode spaces.
\<close>

definition is_space :: "char \<Rightarrow> bool" where
  "is_space c =
     (let k = (of_char c :: nat)
      in (9 \<le> k \<and> k \<le> 13) \<or> k = 32 \<or> k = 133 \<or> k = 160)"

definition strip :: "string \<Rightarrow> string" where
  "strip s = rev (dropWhile is_space (rev (dropWhile is_space s)))"

text \<open>
  An underscore in a numeric literal must stand between two digits. \<open>prev\<close> is the
  character before the rest of the string, if any.
\<close>

fun underscores_ok :: "char option \<Rightarrow> string \<Rightarrow> bool" where
  "underscores_ok prev [] = (prev \<noteq> Some CHR ''_'')"
| "underscores_ok prev (c # cs) =
     (if c = CHR ''_'' then
        (case prev of None \<Rightarrow> False | Some p \<Rightarrow> is_digit p \<and> underscores_ok (Some c) cs)
      else (if prev = Some CHR ''_'' then is_digit c else True) \<and> underscores_ok (Some c) cs)"

definition lower_char :: "char \<Rightarrow> char" where
  "lower_char c =
     (let k = (of_char c :: nat) in if 65 \<le> k \<and> k \<le> 90 then char_of (k + 32) else c)"

definition split_sign :: "string \<Rightarrow> bool \<times> string" where
  "split_sign s =
     (case s of
        [] \<Rightarrow> (False, [])
      | c # cs \<Rightarrow> if c = CHR ''-'' then (True, cs) else if c = CHR ''+'' then (False, cs) else (False, s))"

text \<open>The exponent part of a literal: nothing, or \<open>e\<close>, an optional sign and digits.\<close>

definition parse_exponent :: "string \<Rightarrow> int option" where
  "parse_exponent s =
     (case s of
        [] \<Rightarrow> Some 0
      | c # cs \<Rightarrow>
          if c = CHR ''e'' \<or> c = CHR ''E'' then
            (let (neg, ds) = split_sign cs
             in if ds \<noteq> [] \<and> list_all is_digit ds
                then Some (if neg then - int (nat_of_digits ds) else int (nat_of_digits ds))
                else None)
          else None)"

text \<open>
  The value of a decimal literal as a float. A literal at or beyond the rounding
  boundary of the largest double reads as infinity, one at or below half the smallest
  subnormal reads as zero.
\<close>

definition overflow_bound :: int where
  "overflow_bound = 2 ^ 1024 - 2 ^ 970"

definition fin_of_dec :: "bool \<Rightarrow> nat \<Rightarrow> int \<Rightarrow> pyfloat" where
  "fin_of_dec neg m e =
     (if m = 0 then Fin neg 0 0
      else if 0 \<le> e \<and> overflow_bound \<le> int m * 10 ^ nat e then Inf neg
      else if e < 0 \<and> overflow_bound * 10 ^ nat (- e) \<le> int m then Inf neg
      else if e < 0 \<and> int m * 2 ^ 1075 \<le> 10 ^ nat (- e) then Fin neg 0 0
      else (let (m', e') = strip_zeros m e in Fin neg m' e'))"

definition parse_number :: "bool \<Rightarrow> string \<Rightarrow> pyfloat option" where
  "parse_number neg s =
     (let ip = takeWhile is_digit s;
          r1 = dropWhile is_digit s;
          has_dot = (r1 \<noteq> [] \<and> hd r1 = CHR ''.'');
          fp = (if has_dot then takeWhile is_digit (tl r1) else []);
          r2 = (if has_dot then dropWhile is_digit (tl r1) else r1)
      in if ip = [] \<and> fp = [] then None
         else (case parse_exponent r2 of
                 None \<Rightarrow> None
               | Some x \<Rightarrow> Some (fin_of_dec neg (nat_of_digits (ip @ fp)) (x - int (length fp)))))"

text \<open>
  \<open>float(s)\<close> for a string: surrounding whitespace is dropped, underscores between
  digits are dropped, then the whole rest must be a signed \<open>inf\<close>, \<open>infinity\<close> or
  \<open>nan\<close> in any letter case, or a decimal literal.
\<close>

definition float_of_str :: "string \<Rightarrow> pyfloat option" where
  "float_of_str s =
     (let t = strip s
      in if \<not> underscores_ok None t then None
         else (let (neg, body) = split_sign (filter (\<lambda>c. c \<noteq> CHR ''_'') t);
                   low = map lower_char body
               in if low = ''inf'' \<or> low = ''infinity'' then Some (Inf neg)
                  else if low = ''nan'' then Some NaN
                  else parse_number neg body))"

text \<open>
  \<open>float(x)\<close>: a float is returned as it is, a bool or an int is converted (an int too
  large for a double raises OverflowError), a string is parsed (ValueError when it is
  not a literal), and None raises TypeError.
\<close>

fun py_float :: "pyval \<Rightarrow> py_error + pyfloat" where
  "py_float PNone = Inl TypeError"
| "py_float (PBool b) = Inr (Fin False (if b then 1 else 0) 0)"
| "py_float (PInt i) =
     (if overflow_bound \<le> \<bar>i\<bar> then Inl OverflowError
      else Inr (let (m, e) = strip_zeros (nat \<bar>i\<bar>) 0 in Fin (i < 0) m e))"
| "py_float (PFloat x) = Inr x"
| "py_float (PStr s) = (case float_of_str s of None \<Rightarrow> Inl ValueError | Some x \<Rightarrow> Inr x)"

section \<open>Instants and the helpers module\<close>

text \<open>
  The instant held by a close approach is a naive \<open>datetime\<close> of the standard library.
\<close>

record datetime =
  year :: nat
  month :: nat
  day :: nat
  hour :: nat
  minute :: nat
  second :: nat
  microsecond :: nat

text \<open>
  \<open>str(t)\<close> of a datetime, which is \<open>t.isoformat(sep=' ')\<close>: the seconds are always
  printed, the microseconds when they are not zero.
\<close>

definition datetime_str :: "datetime \<Rightarrow> string" where
  "datetime_str t =
     zpad 4 (year t) @ ''-'' @ zpad 2 (month t) @ ''-'' @ zpad 2 (day t) @ '' ''
     @ zpad 2 (hour t) @ '':'' @ zpad 2 (minute t) @ '':'' @ zpad 2 (second t)
     @ (if microsecond t = 0 then [] else CHR ''.'' # zpad 6 (microsecond t))"

definition is_leap :: "nat \<Rightarrow> bool" where
  "is_leap y = (y mod 4 = 0 \<and> (if y mod 100 = 0 then y mod 400 = 0 else True))"

definition days_in_month :: "nat \<Rightarrow> nat \<Rightarrow> nat" where
  "days_in_month y m =
     (if m = 2 then (if is_leap y then 29 else 28)
      else if m \<in> {4, 6, 9, 11} then 30 else 31)"

text \<open>
  Modelled from the spec: the module \<open>helpers\<close> (its functions \<open>cd_to_datetime\<close> and
  \<open>datetime_to_str\<close>) is imported by the source and is not part of it. The spec gives the
  date parser as accepting the \<open>YYYY-MM-DD HH:MM\<close> calendar format (no seconds),
  returning a naive instant and failing on malformed input; the failure of the standard
  library's parser is a ValueError.
\<close>

definition cd_to_datetime :: "string \<Rightarrow> py_error + datetime" where
  "cd_to_datetime s =
     (let ys = take 4 s; ms = take 2 (drop 5 s); ds = take 2 (drop 8 s);
          hs = take 2 (drop 11 s); ns = take 2 (drop 14 s);
          y = nat_of_digits ys; m = nat_of_digits ms; d = nat_of_digits ds;
          h = nat_of_digits hs; n = nat_of_digits ns
      in if length s = 16 \<and> list_all is_digit (ys @ ms @ ds @ hs @ ns)
            \<and> s ! 4 = CHR ''-'' \<and> s ! 7 = CHR ''-'' \<and> s ! 10 = CHR '' '' \<and> s ! 13 = CHR '':''
            \<and> 1 \<le> y \<and> 1 \<le> m \<and> m \<le> 12 \<and> 1 \<le> d \<and> d \<le> days_in_month y m
            \<and> h < 24 \<and> n < 60
         then Inr \<lparr>year = y, month = m, day = d, hour = h, minute = n,
                    second = 0, microsecond = 0\<rparr>
         else Inl ValueError)"

text \<open>
  Modelled from the spec: the formatter of \<open>helpers\<close> renders the instant without
  seconds, in the same \<open>YYYY-MM-DD HH:MM\<close> shape that the parser reads.
\<close>

definition datetime_to_str :: "datetime \<Rightarrow> string" where
  "datetime_to_str t =
     zpad 4 (year t) @ ''-'' @ zpad 2 (month t) @ ''-'' @ zpad 2 (day t) @ '' ''
     @ zpad 2 (hour t) @ '':'' @ zpad 2 (minute t)"

section \<open>The models: near-Earth objects and close approaches\<close>

text \<open>
  Objects live in a store and refer to each other by address: a close approach holds
  the address of its NEO (or None), a NEO the addresses of its approaches. The keyword
  arguments \<open>**info\<close> are a dictionary from names to values.
\<close>

type_synonym addr = nat
type_synonym kwargs = "string \<rightharpoonup> pyval"

record NearEarthObject =
  designation :: string
  name :: pyval
  diameter :: pyfloat
  hazardous :: pyval
  approaches :: "addr list"

text \<open>
  \<open>NearEarthObject.__init__\<close>. The assertion runs first; \<open>float\<close> of a supplied diameter
  may raise. Keys of \<open>info\<close> other than the three read here are ignored.
\<close>

definition NearEarthObject_init :: "pyval \<Rightarrow> kwargs \<Rightarrow> py_error + NearEarthObject" where
  "NearEarthObject_init desig info =
     (case desig of
        PStr d \<Rightarrow>
          (let nm = (if ''name'' \<in> dom info then the (info ''name'') else PNone)
           in case (if ''diameter'' \<in> dom info then py_float (the (info ''diameter''))
                    else Inr NaN) of
                Inl err \<Rightarrow> Inl err
              | Inr dia \<Rightarrow>
                  Inr \<lparr>designation = d, name = nm, diameter = dia,
                       hazardous = (if ''hazardous'' \<in> dom info then the (info ''hazardous'')
                                    else PBool False),
                       approaches = []\<rparr>)
      | _ \<Rightarrow> Inl AssertionError)"

text \<open>The property \<open>fullname\<close>; \<open>+\<close> of a string and a name that is not a string raises.\<close>

definition fullname :: "NearEarthObject \<Rightarrow> py_error + string" where
  "fullname n =
     (if name n \<noteq> PNone then
        (case name n of PStr s \<Rightarrow> Inr (designation n @ '', '' @ s) | _ \<Rightarrow> Inl TypeError)
      else Inr (designation n))"

text \<open>\<open>NearEarthObject.__str__\<close>: the text is built by appending, clause after clause.\<close>

definition NearEarthObject_str :: "NearEarthObject \<Rightarrow> string" where
  "NearEarthObject_str n =
     (let text0 = ''A NearEarthObject with designation '' @ designation n @ ''.'';
          text1 = (if name n \<noteq> PNone then text0 @ '' It's name is '' @ py_str (name n)
                   else text0);
          text2 = (if float_eq (diameter n) (diameter n)
                   then text1 @ '' It has a diameter of '' @ float_repr (diameter n) @ ''m.''
                   else text1)
      in if truthy (hazardous n) then text2 @ '' It is endangering us all!''
         else text2 @ '' It is harmless.'')"

record CloseApproach =
  priv_designation :: pyval
  time :: datetime
  distance :: pyfloat
  velocity :: pyfloat
  neo :: "addr option"

text \<open>
  \<open>CloseApproach.__init__\<close>; \<open>priv_designation\<close> is the attribute \<open>_designation\<close>. The time
  is parsed first, then the distance and the velocity are converted; each may raise.
\<close>

definition CloseApproach_init :: "pyval \<Rightarrow> string \<Rightarrow> kwargs \<Rightarrow> py_error + CloseApproach" where
  "CloseApproach_init desig tm info =
     (case cd_to_datetime tm of
        Inl err \<Rightarrow> Inl err
      | Inr t \<Rightarrow>
          (case (if ''distance'' \<in> dom info then py_float (the (info ''distance''))
                 else Inr (Fin False 0 0)) of
             Inl err \<Rightarrow> Inl err
           | Inr dst \<Rightarrow>
               (case (if ''velocity'' \<in> dom info then py_float (the (info ''velocity''))
                      else Inr (Fin False 0 0)) of
                  Inl err \<Rightarrow> Inl err
                | Inr vel \<Rightarrow>
                    Inr \<lparr>priv_designation = desig, time = t, distance = dst,
                         velocity = vel, neo = None\<rparr>)))"

text \<open>The property \<open>time_str\<close>.\<close>

definition time_str :: "CloseApproach \<Rightarrow> string" where
  "time_str a = datetime_to_str (time a)"

text \<open>\<open>CloseApproach.__str__\<close>: the velocity clause comes before the distance clause.\<close>

definition CloseApproach_str :: "CloseApproach \<Rightarrow> string" where
  "CloseApproach_str a =
     (let text0 = ''A CloseApproach of '' @ py_str (priv_designation a)
                  @ '' that happened on '' @ time_str a @ ''.'';
          text1 = (if float_gt (velocity a) (Fin False 0 0)
                   then text0 @ '' The velocity was '' @ float_repr (velocity a) else text0)
      in if float_gt (distance a) (Fin False 0 0)
         then text1 @ '' The distance was '' @ float_repr (distance a) else text1)"

section \<open>The store and the file system\<close>

text \<open>
  The state that the writers run in: the objects by address, the contents of the
  files by path, and the paths that cannot be opened for writing. Files are text
  files on a system whose line separator is \<open>\n\<close>, so what is written is what is
  stored. Failures of a write after a successful open are not modelled.
\<close>

record store =
  neo_objs :: "addr \<rightharpoonup> NearEarthObject"
  ca_objs :: "addr \<rightharpoonup> CloseApproach"
  files :: "string \<rightharpoonup> string"
  unwritable :: "string set"

text \<open>\<open>open(filename, "w")\<close> creates the file or truncates it.\<close>

definition open_w :: "string \<Rightarrow> store \<Rightarrow> py_error + store" where
  "open_w fn s =
     (if fn \<in> unwritable s then Inl OSError
      else Inr (s\<lparr>files := (files s)(fn \<mapsto> [])\<rparr>))"

text \<open>\<open>f.write(txt)\<close> on the file opened at \<open>fn\<close> appends to its contents.\<close>

definition file_write :: "string \<Rightarrow> string \<Rightarrow> store \<Rightarrow> store" where
  "file_write fn txt s =
     s\<lparr>files := (files s)(fn \<mapsto> (case files s fn of None \<Rightarrow> [] | Some old \<Rightarrow> old) @ txt)\<rparr>"

text \<open>
  A close approach is linked when its \<open>neo\<close> attribute holds the address of a NEO of
  the store.
\<close>

definition linked :: "store \<Rightarrow> addr \<Rightarrow> bool" where
  "linked s a =
     (case ca_objs s a of
        None \<Rightarrow> False
      | Some ca \<Rightarrow> (case neo ca of None \<Rightarrow> False | Some n \<Rightarrow> neo_objs s n \<noteq> None))"

section \<open>The CSV writer\<close>

text \<open>
  \<open>csv.writer\<close> with the default dialect: fields are separated by a comma, a record ends
  with \<open>\r\n\<close>, a field is quoted only when it contains the delimiter, the quote
  character or a character of the line terminator, and a quote inside it is doubled.
\<close>

datatype cell = CVal pyval | CTime datetime

text \<open>The text of a field: None is the empty field, a string is itself, the rest goes through \<open>str\<close>.\<close>

fun cell_text :: "cell \<Rightarrow> string" where
  "cell_text (CVal PNone) = []"
| "cell_text (CVal v) = py_str v"
| "cell_text (CTime t) = datetime_str t"

definition dquote :: char where
  "dquote = CHR 0x22"

definition needs_quote :: "string \<Rightarrow> bool" where
  "needs_quote f = list_ex (\<lambda>c. c = CHR '','' \<or> c = dquote \<or> c = CHR 0x0D \<or> c = CHR 0x0A) f"

definition csv_field :: "string \<Rightarrow> string" where
  "csv_field f =
     (if needs_quote f
      then dquote # concat (map (\<lambda>c. if c = dquote then [dquote, dquote] else [c]) f) @ [dquote]
      else f)"

fun join :: "string \<Rightarrow> string list \<Rightarrow> string" where
  "join sep [] = []"
| "join sep [x] = x"
| "join sep (x # y # ys) = x @ sep @ join sep (y # ys)"

text \<open>One record as \<open>writerow\<close> writes it; a record of one empty field is written quoted.\<close>

definition csv_record :: "cell list \<Rightarrow> string" where
  "csv_record cells =
     (let fs = map cell_text cells
      in (if fs = [[]] then [dquote, dquote] else join '','' (map csv_field fs))
         @ [CHR 0x0D, CHR 0x0A])"

definition writerow :: "string \<Rightarrow> cell list \<Rightarrow> store \<Rightarrow> store" where
  "writerow fn cells s = file_write fn (csv_record cells) s"

definition fieldnames :: "string list" where
  "fieldnames =
     [''datetime_utc'', ''distance_au'', ''velocity_km_s'', ''designation'', ''name'',
      ''diameter_km'', ''potentially_hazardous'']"

text \<open>
  The tuple \<open>line\<close> built in the loop body for the approach at address \<open>a\<close>. Reading an
  attribute of an object that is not there (\<open>o.neo\<close> is None, or the element is no
  close approach) raises AttributeError.
\<close>

definition csv_line :: "store \<Rightarrow> addr \<Rightarrow> py_error + cell list" where
  "csv_line s a =
     (case ca_objs s a of
        None \<Rightarrow> Inl AttributeError
      | Some ca \<Rightarrow>
          (case neo ca of
             None \<Rightarrow> Inl AttributeError
           | Some n \<Rightarrow>
               (case neo_objs s n of
                  None \<Rightarrow> Inl AttributeError
                | Some ne \<Rightarrow>
                    (let nm = (if name ne \<noteq> PNone then name ne else PStr []);
                         dia = (if float_eq (diameter ne) (diameter ne)
                                then PFloat (diameter ne) else PStr [])
                     in Inr [CTime (time ca), CVal (PFloat (distance ca)),
                             CVal (PFloat (velocity ca)), CVal (priv_designation ca),
                             CVal nm, CVal dia, CVal (hazardous ne)]))))"

text \<open>The loop \<open>for o in results\<close>: an exception leaves the rows written so far in the file.\<close>

fun csv_loop :: "string \<Rightarrow> addr list \<Rightarrow> store \<Rightarrow> py_error option \<times> store" where
  "csv_loop fn [] s = (None, s)"
| "csv_loop fn (a # as) s =
     (case csv_line s a of
        Inl err \<Rightarrow> (Some err, s)
      | Inr line \<Rightarrow> csv_loop fn as (writerow fn line s))"

text \<open>\<open>write_to_csv\<close>: the exception raised, if any, and the store afterwards.\<close>

definition write_to_csv :: "store \<Rightarrow> addr list \<Rightarrow> string \<Rightarrow> py_error option \<times> store" where
  "write_to_csv s results filename =
     (case open_w filename s of
        Inl err \<Rightarrow> (Some err, s)
      | Inr s1 \<Rightarrow>
          csv_loop filename results
            (writerow filename (map (\<lambda>f. CVal (PStr f)) fieldnames) s1))"

section \<open>The JSON writer\<close>

datatype json = JVal pyval | JList "json list" | JDict "(string \<times> json) list"

definition hex_char :: "nat \<Rightarrow> char" where
  "hex_char d = ''0123456789abcdef'' ! (d mod 16)"

text \<open>
  A character inside a JSON string with \<open>ensure_ascii\<close>: printable ASCII is itself, the
  quote, the backslash and five control characters have short escapes, everything
  else is \<open>\uXXXX\<close>.
\<close>

definition json_escape :: "char \<Rightarrow> string" where
  "json_escape c =
     (let k = (of_char c :: nat)
      in if c = dquote then [CHR 0x5C, dquote]
         else if c = CHR 0x5C then [CHR 0x5C, CHR 0x5C]
         else if k = 10 then [CHR 0x5C, CHR ''n'']
         else if k = 13 then [CHR 0x5C, CHR ''r'']
         else if k = 9 then [CHR 0x5C, CHR ''t'']
         else if k = 8 then [CHR 0x5C, CHR ''b'']
         else if k = 12 then [CHR 0x5C, CHR ''f'']
         else if 32 \<le> k \<and> k \<le> 126 then [c]
         else [CHR 0x5C, CHR ''u'', CHR ''0'', CHR ''0'', hex_char (k div 16), hex_char k])"

definition json_string :: "string \<Rightarrow> string" where
  "json_string s = dquote # concat (map json_escape s) @ [dquote]"

text \<open>A float in JSON: \<open>repr\<close>, but the non-finite values have names of their own.\<close>

fun json_float :: "pyfloat \<Rightarrow> string" where
  "json_float NaN = ''NaN''"
| "json_float (Inf neg) = (if neg then ''-Infinity'' else ''Infinity'')"
| "json_float (Fin neg m e) = float_repr (Fin neg m e)"

fun json_scalar :: "pyval \<Rightarrow> string" where
  "json_scalar PNone = ''null''"
| "json_scalar (PBool b) = (if b then ''true'' else ''false'')"
| "json_scalar (PInt i) = str_int i"
| "json_scalar (PFloat x) = json_float x"
| "json_scalar (PStr s) = json_string s"

text \<open>\<open>json.dumps\<close> with the default separators \<open>", "\<close> and \<open>": "\<close>.\<close>

fun json_dumps :: "json \<Rightarrow> string"
  and json_dumps_list :: "json list \<Rightarrow> string"
  and json_dumps_items :: "(string \<times> json) list \<Rightarrow> string" where
  "json_dumps (JVal v) = json_scalar v"
| "json_dumps (JList xs) = ''['' @ json_dumps_list xs @ '']''"
| "json_dumps (JDict kvs) = ''{'' @ json_dumps_items kvs @ ''}''"
| "json_dumps_list [] = []"
| "json_dumps_list (x # xs) =
     json_dumps x @ (if xs = [] then [] else '', '' @ json_dumps_list xs)"
| "json_dumps_items [] = []"
| "json_dumps_items ((k, v) # kvs) =
     json_string k @ '': '' @ json_dumps v
     @ (if kvs = [] then [] else '', '' @ json_dumps_items kvs)"

text \<open>\<open>d[k] = v\<close> on an insertion-ordered dictionary.\<close>

fun dict_set :: "(string \<times> json) list \<Rightarrow> string \<Rightarrow> json \<Rightarrow> (string \<times> json) list" where
  "dict_set [] k v = [(k, v)]"
| "dict_set ((k', v') # d) k v =
     (if k' = k then (k, v) # d else (k', v') # dict_set d k v)"

text \<open>\<open>json.dump(x, f)\<close>.\<close>

definition json_dump :: "json \<Rightarrow> string \<Rightarrow> store \<Rightarrow> store" where
  "json_dump x fn s = file_write fn (json_dumps x) s"

text \<open>The dictionary \<open>obj_dict\<close> built in the loop body for the approach at address \<open>a\<close>.\<close>

definition json_obj :: "store \<Rightarrow> addr \<Rightarrow> py_error + json" where
  "json_obj s a =
     (case ca_objs s a of
        None \<Rightarrow> Inl AttributeError
      | Some ca \<Rightarrow>
          (case neo ca of
             None \<Rightarrow> Inl AttributeError
           | Some n \<Rightarrow>
               (case neo_objs s n of
                  None \<Rightarrow> Inl AttributeError
                | Some ne \<Rightarrow>
                    (let neo_dict = [];
                         neo_dict = dict_set neo_dict ''designation'' (JVal (PStr (designation ne)));
                         neo_dict = dict_set neo_dict ''name''
                                      (JVal (if name ne \<noteq> PNone then name ne else PStr []));
                         neo_dict = dict_set neo_dict ''diameter_km'' (JVal (PFloat (diameter ne)));
                         neo_dict = dict_set neo_dict ''potentially_hazardous''
                                      (JVal (PBool (if truthy (hazardous ne) then True else False)));
                         obj_dict = [];
                         obj_dict = dict_set obj_dict ''datetime_utc''
                                      (JVal (PStr (datetime_to_str (time ca))));
                         obj_dict = dict_set obj_dict ''distance_au'' (JVal (PFloat (distance ca)));
                         obj_dict = dict_set obj_dict ''velocity_km_s'' (JVal (PFloat (velocity ca)));
                         obj_dict = dict_set obj_dict ''neo'' (JDict neo_dict)
                     in Inr (JDict obj_dict)))))"

text \<open>The loop that fills \<open>top_lvl_list\<close>.\<close>

fun json_loop :: "store \<Rightarrow> addr list \<Rightarrow> json list \<Rightarrow> py_error + json list" where
  "json_loop s [] top_lvl_list = Inr top_lvl_list"
| "json_loop s (a # as) top_lvl_list =
     (case json_obj s a of
        Inl err \<Rightarrow> Inl err
      | Inr obj_dict \<Rightarrow> json_loop s as (top_lvl_list @ [obj_dict]))"

text \<open>
  \<open>write_to_json\<close>: the exception raised, if any, and the store afterwards. An exception
  in the loop leaves the opened file empty, since nothing is written before the loop
  ends.
\<close>

definition write_to_json :: "store \<Rightarrow> addr list \<Rightarrow> string \<Rightarrow> py_error option \<times> store" where
  "write_to_json s results filename =
     (case open_w filename s of
        Inl err \<Rightarrow> (Some err, s)
      | Inr s1 \<Rightarrow>
          if length results = 0 then (None, json_dump (JList []) filename s1)
          else (case json_loop s1 results [] of
                  Inl err \<Rightarrow> (Some err, s1)
                | Inr top_lvl_list \<Rightarrow> (None, json_dump (JList top_lvl_list) filename s1)))"

section \<open>The linking step\<close>

text \<open>
  Modelled from the spec: the linking step is external to the source (the database
  constructor that the docstrings mention is not part of it). The spec has it resolve
  the \<open>neo\<close> reference of the approach and append the approach to the \<open>approaches\<close> of
  the NEO.
\<close>

definition link :: "addr \<Rightarrow> addr \<Rightarrow> store \<Rightarrow> store" where
  "link a n s =
     (case ca_objs s a of
        None \<Rightarrow> s
      | Some ca \<Rightarrow>
          (case neo_objs s n of
             None \<Rightarrow> s
           | Some ne \<Rightarrow>
               s\<lparr>ca_objs := (ca_objs s)(a \<mapsto> ca\<lparr>neo := Some n\<rparr>),
                 neo_objs := (neo_objs s)(n \<mapsto> ne\<lparr>approaches := approaches ne @ [a]\<rparr>)\<rparr>))"

section \<open>Example stores\<close>

text \<open>A store with no objects and no files, in which every path can be written.\<close>

definition empty_store :: store where
  "empty_store = \<lparr>neo_objs = Map.empty, ca_objs = Map.empty, files = Map.empty, unwritable = {}\<rparr>"

text \<open>
  Two linked pairs: Eros with its approach of 1900, and a NEO without name and without
  diameter whose approach carries a designation key spelled differently from the
  designation of the NEO.
\<close>

definition eros :: NearEarthObject where
  "eros = \<lparr>designation = ''433'', name = PStr ''Eros'', diameter = Fin False 1684 (- 2),
            hazardous = PBool False, approaches = [0]\<rparr>"

definition eros_approach :: CloseApproach where
  "eros_approach =
     \<lparr>priv_designation = PStr ''433'',
      time = \<lparr>year = 1900, month = 1, day = 1, hour = 0, minute = 27, second = 0,
               microsecond = 0\<rparr>,
      distance = Fin False 865 (- 4), velocity = Fin False 1675 (- 2), neo = Some 0\<rparr>"

definition nameless :: NearEarthObject where
  "nameless = \<lparr>designation = ''2020 AB'', name = PNone, diameter = NaN,
                hazardous = PBool True, approaches = [1]\<rparr>"

definition nameless_approach :: CloseApproach where
  "nameless_approach =
     \<lparr>priv_designation = PStr ''2020 ab'',
      time = \<lparr>year = 2020, month = 2, day = 29, hour = 23, minute = 59, second = 0,
               microsecond = 0\<rparr>,
      distance = Fin False 0 0, velocity = Fin False 5 0, neo = Some 1\<rparr>"

definition example_store :: store where
  "example_store =
     \<lparr>neo_objs = [0 \<mapsto> eros, 1 \<mapsto> nameless],
      ca_objs = [0 \<mapsto> eros_approach, 1 \<mapsto> nameless_approach],
      files = Map.empty, unwritable = {}\<rparr>"

section \<open>Properties of the writers\<close>

subsection \<open>What a write changes\<close>

lemma file_write_objs [simp]:
  "neo_objs (file_write fn txt s) = neo_objs s"
  "ca_objs (file_write fn txt s) = ca_objs s"
  "unwritable (file_write fn txt s) = unwritable s"
  by (simp_all add: file_write_def)

lemma file_write_files:
  "files (file_write fn txt s) fn = Some ((case files s fn of None \<Rightarrow> [] | Some old \<Rightarrow> old) @ txt)"
  by (simp add: file_write_def)

lemma writerow_objs [simp]:
  "neo_objs (writerow fn cells s) = neo_objs s"
  "ca_objs (writerow fn cells s) = ca_objs s"
  by (simp_all add: writerow_def)

lemma open_w_objs:
  "open_w fn s = Inr s1 \<Longrightarrow> neo_objs s1 = neo_objs s \<and> ca_objs s1 = ca_objs s"
  by (auto simp: open_w_def split: if_splits)

lemma csv_line_cong:
  "neo_objs s' = neo_objs s \<Longrightarrow> ca_objs s' = ca_objs s \<Longrightarrow> csv_line s' a = csv_line s a"
  by (simp add: csv_line_def cong: option.case_cong)

lemma json_obj_cong:
  "neo_objs s' = neo_objs s \<Longrightarrow> ca_objs s' = ca_objs s \<Longrightarrow> json_obj s' a = json_obj s a"
  by (simp add: json_obj_def cong: option.case_cong)

lemma csv_loop_objs:
  "neo_objs (snd (csv_loop fn rs s)) = neo_objs s \<and> ca_objs (snd (csv_loop fn rs s)) = ca_objs s"
  by (induction rs arbitrary: s) (auto split: sum.splits)

text \<open>
  C9. Neither writer mutates the object graph: after \<open>write_to_csv\<close> or
  \<open>write_to_json\<close> has run, on any list of results and whether or not it raised,
  the store holds the same close approaches and the same near-Earth objects, with
  every attribute (time, distance, velocity, captured designation, neo reference;
  designation, name, diameter, hazardous, approaches) as before.
\<close>

theorem writers_frame:
  "neo_objs (snd (write_to_csv s results filename)) = neo_objs s
   \<and> ca_objs (snd (write_to_csv s results filename)) = ca_objs s
   \<and> neo_objs (snd (write_to_json s results filename)) = neo_objs s
   \<and> ca_objs (snd (write_to_json s results filename)) = ca_objs s"
proof -
  have csv: "neo_objs (snd (write_to_csv s results filename)) = neo_objs s
      \<and> ca_objs (snd (write_to_csv s results filename)) = ca_objs s"
  proof (cases "open_w filename s")
    case (Inl err)
    then show ?thesis by (simp add: write_to_csv_def)
  next
    case (Inr s1)
    then show ?thesis
      using open_w_objs [OF Inr] by (simp add: write_to_csv_def csv_loop_objs)
  qed
  have json: "neo_objs (snd (write_to_json s results filename)) = neo_objs s
      \<and> ca_objs (snd (write_to_json s results filename)) = ca_objs s"
  proof (cases "open_w filename s")
    case (Inl err)
    then show ?thesis by (simp add: write_to_json_def)
  next
    case (Inr s1)
    then show ?thesis
      using open_w_objs [OF Inr]
      by (simp add: write_to_json_def json_dump_def split: sum.splits)
  qed
  from csv json show ?thesis by simp
qed

subsection \<open>The JSON writer on an empty collection\<close>

text \<open>
  C5. \<open>write_to_json\<close> on an empty collection, at a path that can be opened, raises
  nothing and leaves exactly the text \<open>[]\<close> in the file.
\<close>

theorem write_to_json_empty:
  assumes "filename \<notin> unwritable s"
  shows "write_to_json s [] filename = (None, s\<lparr>files := (files s)(filename \<mapsto> ''[]'')\<rparr>)"
  using assms by (simp add: write_to_json_def open_w_def json_dump_def file_write_def)

theorem write_to_json_empty_witness:
  "''out.json'' \<notin> unwritable empty_store
   \<and> write_to_json empty_store [] ''out.json''
       = (None, empty_store\<lparr>files := (files empty_store)(''out.json'' \<mapsto> ''[]'')\<rparr>)"
proof -
  have h: "''out.json'' \<notin> unwritable empty_store" by (simp add: empty_store_def)
  show ?thesis using h write_to_json_empty [OF h] by simp
qed

subsection \<open>The rows of the CSV file\<close>

lemma float_eq_self: "float_eq x x \<longleftrightarrow> x \<noteq> NaN"
  by (cases x) (simp_all add: dec_eq_def)

lemma linked_csv_line:
  assumes "linked s a"
  shows "\<exists>line. csv_line s a = Inr line"
  using assms by (auto simp: linked_def csv_line_def Let_def split: option.splits)

lemma linked_cong:
  "neo_objs s' = neo_objs s \<Longrightarrow> ca_objs s' = ca_objs s \<Longrightarrow> linked s' a = linked s a"
  by (simp add: linked_def cong: option.case_cong)

lemma writerow_files:
  "files (writerow fn cells s) fn
     = Some ((case files s fn of None \<Rightarrow> [] | Some old \<Rightarrow> old) @ csv_record cells)"
  by (simp add: writerow_def file_write_def)

lemma csv_loop_rows:
  assumes "list_all (linked s) rs" and "files s fn = Some old"
  shows "\<exists>lines s'. csv_loop fn rs s = (None, s')
           \<and> list_all2 (\<lambda>a line. csv_line s a = Inr line) rs lines
           \<and> files s' fn = Some (old @ concat (map csv_record lines))"
  using assms
proof (induction rs arbitrary: s old)
  case Nil
  then show ?case by simp
next
  case (Cons a rs)
  from Cons.prems(1) have la: "linked s a" and lrs: "list_all (linked s) rs" by simp_all
  from linked_csv_line [OF la] obtain line where line: "csv_line s a = Inr line" by blast
  let ?s1 = "writerow fn line s"
  have same: "\<And>b. csv_line ?s1 b = csv_line s b"
    by (rule csv_line_cong) simp_all
  have lrs1: "list_all (linked ?s1) rs"
    using lrs by (simp add: list_all_iff linked_cong [of ?s1 s])
  have f1: "files ?s1 fn = Some (old @ csv_record line)"
    using Cons.prems(2) by (simp add: writerow_files)
  from Cons.IH [OF lrs1 f1] obtain lines s' where
    run: "csv_loop fn rs ?s1 = (None, s')" and
    rel: "list_all2 (\<lambda>a line. csv_line ?s1 a = Inr line) rs lines" and
    out: "files s' fn = Some ((old @ csv_record line) @ concat (map csv_record lines))"
    by blast
  have "csv_loop fn (a # rs) s = (None, s')" using line run by simp
  moreover have "list_all2 (\<lambda>a line. csv_line s a = Inr line) (a # rs) (line # lines)"
    using line rel by (simp add: same)
  moreover have "files s' fn = Some (old @ concat (map csv_record (line # lines)))"
    using out by simp
  ultimately show ?case by blast
qed

lemma header_record:
  "csv_record (map (\<lambda>f. CVal (PStr f)) fieldnames)
     = ''datetime_utc,distance_au,velocity_km_s,designation,name,diameter_km,potentially_hazardous''
       @ [CHR 0x0D, CHR 0x0A]"
  by (simp add: csv_record_def fieldnames_def csv_field_def needs_quote_def dquote_def)

text \<open>
  C2. For every sequence of linked approaches and a path that can be opened,
  \<open>write_to_csv\<close> raises nothing; the file then starts with the line of the seven
  field names \<open>datetime_utc, distance_au, velocity_km_s, designation, name,
  diameter_km, potentially_hazardous\<close>, comma-joined in that order, and goes on with
  exactly one record per approach of the input, in the order of the input.
\<close>

theorem write_to_csv_header_and_rows:
  assumes "filename \<notin> unwritable s" and "list_all (linked s) results"
  shows "\<exists>lines s'. write_to_csv s results filename = (None, s')
           \<and> list_all2 (\<lambda>a line. csv_line s a = Inr line) results lines
           \<and> length lines = length results
           \<and> files s' filename
               = Some (''datetime_utc,distance_au,velocity_km_s,designation,name,diameter_km,potentially_hazardous''
                       @ [CHR 0x0D, CHR 0x0A] @ concat (map csv_record lines))"
proof -
  let ?s1 = "s\<lparr>files := (files s)(filename \<mapsto> [])\<rparr>"
  let ?hdr = "map (\<lambda>f. CVal (PStr f)) fieldnames"
  let ?s2 = "writerow filename ?hdr ?s1"
  have op: "open_w filename s = Inr ?s1" using assms(1) by (simp add: open_w_def)
  have l2: "list_all (linked ?s2) results"
    using assms(2) by (simp add: list_all_iff linked_cong [of ?s2 s])
  have f2: "files ?s2 filename = Some (csv_record ?hdr)"
    by (simp add: writerow_files)
  from csv_loop_rows [OF l2 f2] obtain lines s' where
    run: "csv_loop filename results ?s2 = (None, s')" and
    rel: "list_all2 (\<lambda>a line. csv_line ?s2 a = Inr line) results lines" and
    out: "files s' filename = Some (csv_record ?hdr @ concat (map csv_record lines))"
    by blast
  have same: "\<And>b. csv_line ?s2 b = csv_line s b"
    by (rule csv_line_cong) simp_all
  have "write_to_csv s results filename = (None, s')"
    using op run by (simp add: write_to_csv_def)
  moreover have rel': "list_all2 (\<lambda>a line. csv_line s a = Inr line) results lines"
    using rel by (simp add: same)
  moreover have "length lines = length results"
    using rel' by (simp add: list_all2_lengthD)
  moreover have "files s' filename
      = Some (''datetime_utc,distance_au,velocity_km_s,designation,name,diameter_km,potentially_hazardous''
              @ [CHR 0x0D, CHR 0x0A] @ concat (map csv_record lines))"
    using out by (simp only: header_record append_assoc)
  ultimately show ?thesis by blast
qed

theorem write_to_csv_header_and_rows_witness:
  "''out.csv'' \<notin> unwritable example_store \<and> list_all (linked example_store) [0, 1, 0]
   \<and> (\<exists>lines s'. write_to_csv example_store [0, 1, 0] ''out.csv'' = (None, s')
           \<and> list_all2 (\<lambda>a line. csv_line example_store a = Inr line) [0, 1, 0] lines
           \<and> length lines = length [0 :: nat, 1, 0]
           \<and> files s' ''out.csv''
               = Some (''datetime_utc,distance_au,velocity_km_s,designation,name,diameter_km,potentially_hazardous''
                       @ [CHR 0x0D, CHR 0x0A] @ concat (map csv_record lines)))"
proof -
  have h1: "''out.csv'' \<notin> unwritable example_store" by (simp add: example_store_def)
  have h2: "list_all (linked example_store) [0, 1, 0]"
    by (simp add: example_store_def linked_def eros_approach_def nameless_approach_def)
  show ?thesis using h1 h2 write_to_csv_header_and_rows [OF h1 h2] by blast
qed

subsection \<open>The fields of a CSV record\<close>

lemma csv_line_linked:
  assumes "ca_objs s a = Some ca" and "neo ca = Some n" and "neo_objs s n = Some ne"
  shows "csv_line s a =
           Inr [CTime (time ca), CVal (PFloat (distance ca)), CVal (PFloat (velocity ca)),
                CVal (priv_designation ca),
                CVal (if name ne = PNone then PStr [] else name ne),
                CVal (if diameter ne = NaN then PStr [] else PFloat (diameter ne)),
                CVal (hazardous ne)]"
  using assms by (simp add: csv_line_def float_eq_self)

lemma write_to_csv_single:
  assumes "filename \<notin> unwritable s" and "csv_line s a = Inr line"
  shows "files (snd (write_to_csv s [a] filename)) filename
           = Some (csv_record (map (\<lambda>f. CVal (PStr f)) fieldnames) @ csv_record line)"
proof -
  let ?s1 = "s\<lparr>files := (files s)(filename \<mapsto> [])\<rparr>"
  let ?s2 = "writerow filename (map (\<lambda>f. CVal (PStr f)) fieldnames) ?s1"
  have op: "open_w filename s = Inr ?s1" using assms(1) by (simp add: open_w_def)
  have "csv_line ?s2 a = csv_line s a" by (rule csv_line_cong) simp_all
  then have line2: "csv_line ?s2 a = Inr line" using assms(2) by simp
  have "write_to_csv s [a] filename = (None, writerow filename line ?s2)"
    using op line2 by (simp add: write_to_csv_def)
  then show ?thesis by (simp add: writerow_files)
qed

text \<open>
  C3. For a linked approach, the record that \<open>write_to_csv\<close> writes has seven fields:
  the designation field is the designation key captured by the approach itself, the
  name field is empty when the NEO has no name (and is the name otherwise), the
  diameter field is empty when the diameter is the not-a-number value and is the
  printed number otherwise, and the distance and velocity fields are the printed
  distance and velocity of the approach.
\<close>

theorem csv_row_mapping:
  assumes "filename \<notin> unwritable s"
    and "ca_objs s a = Some ca" and "neo ca = Some n" and "neo_objs s n = Some ne"
  shows "\<exists>line. csv_line s a = Inr line
           \<and> files (snd (write_to_csv s [a] filename)) filename
               = Some (csv_record (map (\<lambda>f. CVal (PStr f)) fieldnames) @ csv_record line)
           \<and> length line = 7
           \<and> line ! 1 = CVal (PFloat (distance ca))
           \<and> cell_text (line ! 1) = float_repr (distance ca)
           \<and> line ! 2 = CVal (PFloat (velocity ca))
           \<and> cell_text (line ! 2) = float_repr (velocity ca)
           \<and> line ! 3 = CVal (priv_designation ca)
           \<and> (if name ne = PNone then cell_text (line ! 4) = []
               else line ! 4 = CVal (name ne))
           \<and> (if diameter ne = NaN then cell_text (line ! 5) = []
               else cell_text (line ! 5) = float_repr (diameter ne))"
proof -
  let ?line = "[CTime (time ca), CVal (PFloat (distance ca)), CVal (PFloat (velocity ca)),
                CVal (priv_designation ca),
                CVal (if name ne = PNone then PStr [] else name ne),
                CVal (if diameter ne = NaN then PStr [] else PFloat (diameter ne)),
                CVal (hazardous ne)]"
  have line: "csv_line s a = Inr ?line"
    by (rule csv_line_linked [OF assms(2-4)])
  have out: "files (snd (write_to_csv s [a] filename)) filename
      = Some (csv_record (map (\<lambda>f. CVal (PStr f)) fieldnames) @ csv_record ?line)"
    by (rule write_to_csv_single [OF assms(1) line])
  have "length ?line = 7" by simp
  moreover have "?line ! 1 = CVal (PFloat (distance ca))"
    and "cell_text (?line ! 1) = float_repr (distance ca)"
    and "?line ! 2 = CVal (PFloat (velocity ca))"
    and "cell_text (?line ! 2) = float_repr (velocity ca)"
    and "?line ! 3 = CVal (priv_designation ca)"
    by simp_all
  moreover have "if name ne = PNone then cell_text (?line ! 4) = []
      else ?line ! 4 = CVal (name ne)"
    by simp
  moreover have "if diameter ne = NaN then cell_text (?line ! 5) = []
      else cell_text (?line ! 5) = float_repr (diameter ne)"
    by simp
  ultimately show ?thesis using line out by blast
qed

theorem csv_row_mapping_witness:
  "''out.csv'' \<notin> unwritable example_store
   \<and> ca_objs example_store 1 = Some nameless_approach \<and> neo nameless_approach = Some 1
   \<and> neo_objs example_store 1 = Some nameless
   \<and> name nameless = PNone \<and> diameter nameless = NaN
   \<and> priv_designation nameless_approach \<noteq> PStr (designation nameless)
   \<and> (\<exists>line. csv_line example_store 1 = Inr line
         \<and> files (snd (write_to_csv example_store [1] ''out.csv'')) ''out.csv''
             = Some (csv_record (map (\<lambda>f. CVal (PStr f)) fieldnames) @ csv_record line)
         \<and> line ! 3 = CVal (PStr ''2020 ab'')
         \<and> cell_text (line ! 4) = [] \<and> cell_text (line ! 5) = []
         \<and> cell_text (line ! 1) = ''0.0'' \<and> cell_text (line ! 2) = ''5.0'')"
proof -
  have h1: "''out.csv'' \<notin> unwritable example_store" by (simp add: example_store_def)
  have h2: "ca_objs example_store 1 = Some nameless_approach" by (simp add: example_store_def)
  have h3: "neo nameless_approach = Some 1" by (simp add: nameless_approach_def)
  have h4: "neo_objs example_store 1 = Some nameless" by (simp add: example_store_def)
  have n1: "name nameless = PNone" and n2: "diameter nameless = NaN"
    and n3: "priv_designation nameless_approach = PStr ''2020 ab''"
    and n4: "designation nameless = ''2020 AB''"
    and n5: "distance nameless_approach = Fin False 0 0"
    and n6: "velocity nameless_approach = Fin False 5 0"
    by (simp_all add: nameless_def nameless_approach_def)
  have r1: "float_repr (Fin False 0 0) = ''0.0''" by code_simp
  have r2: "float_repr (Fin False 5 0) = ''5.0''" by code_simp
  from csv_row_mapping [OF h1 h2 h3 h4] obtain line where
    "csv_line example_store 1 = Inr line"
    "files (snd (write_to_csv example_store [1] ''out.csv'')) ''out.csv''
       = Some (csv_record (map (\<lambda>f. CVal (PStr f)) fieldnames) @ csv_record line)"
    "cell_text (line ! 1) = float_repr (distance nameless_approach)"
    "cell_text (line ! 2) = float_repr (velocity nameless_approach)"
    "line ! 3 = CVal (priv_designation nameless_approach)"
    "if name nameless = PNone then cell_text (line ! 4) = []
     else line ! 4 = CVal (name nameless)"
    "if diameter nameless = NaN then cell_text (line ! 5) = []
     else cell_text (line ! 5) = float_repr (diameter nameless)"
    by blast
  then have "\<exists>line. csv_line example_store 1 = Inr line
         \<and> files (snd (write_to_csv example_store [1] ''out.csv'')) ''out.csv''
             = Some (csv_record (map (\<lambda>f. CVal (PStr f)) fieldnames) @ csv_record line)
         \<and> line ! 3 = CVal (PStr ''2020 ab'')
         \<and> cell_text (line ! 4) = [] \<and> cell_text (line ! 5) = []
         \<and> cell_text (line ! 1) = ''0.0'' \<and> cell_text (line ! 2) = ''5.0''"
    using n1 n2 n3 n5 n6 r1 r2 by auto
  then show ?thesis using h1 h2 h3 h4 n1 n2 n3 n4 by simp
qed

subsection \<open>The time written by the two writers\<close>



lemma json_obj_linked:
  assumes "ca_objs s a = Some ca" and "neo ca = Some n" and "neo_objs s n = Some ne"
  shows "json_obj s a =
           Inr (JDict [(''datetime_utc'', JVal (PStr (datetime_to_str (time ca)))),
                       (''distance_au'', JVal (PFloat (distance ca))),
                       (''velocity_km_s'', JVal (PFloat (velocity ca))),
                       (''neo'', JDict [(''designation'', JVal (PStr (designation ne))),
                                       (''name'', JVal (if name ne = PNone then PStr [] else name ne)),
                                       (''diameter_km'', JVal (PFloat (diameter ne))),
                                       (''potentially_hazardous'', JVal (PBool (truthy (hazardous ne))))])])"
  using assms by (simp add: json_obj_def)


lemma write_to_json_single:
  assumes "filename \<notin> unwritable s" and "json_obj s a = Inr obj"
  shows "write_to_json s [a] filename
           = (None, s\<lparr>files := (files s)(filename \<mapsto> json_dumps (JList [obj]))\<rparr>)"
proof -
  let ?s1 = "s\<lparr>files := (files s)(filename \<mapsto> [])\<rparr>"
  have op: "open_w filename s = Inr ?s1" using assms(1) by (simp add: open_w_def)
  have "json_obj ?s1 a = json_obj s a" by (rule json_obj_cong) simp_all
  then have obj: "json_obj ?s1 a = Inr obj" using assms(2) by simp
  show ?thesis
    using op obj by (simp add: write_to_json_def json_dump_def file_write_def)
qed














section \<open>Properties of the models\<close>

subsection \<open>The rendering of a near-Earth object\<close>

lemma NearEarthObject_str_closed:
  "NearEarthObject_str n =
     ''A NearEarthObject with designation '' @ designation n @ ''.''
     @ (if name n = PNone then [] else '' It's name is '' @ py_str (name n))
     @ (if diameter n = NaN then []
        else '' It has a diameter of '' @ float_repr (diameter n) @ ''m.'')
     @ (if truthy (hazardous n) then '' It is endangering us all!''
        else '' It is harmless.'')"
  by (simp add: NearEarthObject_str_def float_eq_self)

lemma NearEarthObject_init_no_diameter:
  assumes "NearEarthObject_init desig info = Inr n" and "''diameter'' \<notin> dom info"
  shows "diameter n = NaN"
  using assms
  by (cases desig) (auto simp: NearEarthObject_init_def Let_def split: if_splits)

text \<open>
  C6. The rendering \<open>str\<close> of a near-Earth object states the designation, then has a
  name clause exactly when the name is not None, a diameter clause exactly when the
  diameter is not the not-a-number value (the test being that the diameter equals
  itself), and one of two different hazard clauses according to the truth value of
  \<open>hazardous\<close>. A NEO constructed without a diameter has no diameter clause.
\<close>

theorem NearEarthObject_str_clauses:
  "NearEarthObject_str n =
     ''A NearEarthObject with designation '' @ designation n @ ''.''
     @ (if name n = PNone then [] else '' It's name is '' @ py_str (name n))
     @ (if diameter n = NaN then []
        else '' It has a diameter of '' @ float_repr (diameter n) @ ''m.'')
     @ (if truthy (hazardous n) then '' It is endangering us all!''
        else '' It is harmless.'')
   \<and> (float_eq (diameter n) (diameter n) \<longleftrightarrow> diameter n \<noteq> NaN)
   \<and> '' It is endangering us all!'' \<noteq> '' It is harmless.''
   \<and> (NearEarthObject_init desig info = Inr n' \<longrightarrow> ''diameter'' \<notin> dom info \<longrightarrow>
        diameter n' = NaN
        \<and> NearEarthObject_str n' =
            ''A NearEarthObject with designation '' @ designation n' @ ''.''
            @ (if name n' = PNone then [] else '' It's name is '' @ py_str (name n'))
            @ (if truthy (hazardous n') then '' It is endangering us all!''
               else '' It is harmless.''))"
proof -
  have "NearEarthObject_init desig info = Inr n' \<longrightarrow> ''diameter'' \<notin> dom info \<longrightarrow>
        diameter n' = NaN
        \<and> NearEarthObject_str n' =
            ''A NearEarthObject with designation '' @ designation n' @ ''.''
            @ (if name n' = PNone then [] else '' It's name is '' @ py_str (name n'))
            @ (if truthy (hazardous n') then '' It is endangering us all!''
               else '' It is harmless.'')"
    using NearEarthObject_init_no_diameter [of desig info n']
    by (simp add: NearEarthObject_str_closed)
  then show ?thesis
    using NearEarthObject_str_closed [of n] float_eq_self [of "diameter n"] by simp
qed

theorem NearEarthObject_str_clauses_witness:
  "NearEarthObject_init (PStr ''2020 AB'') [''name'' \<mapsto> PStr ''Apophis'', ''hazardous'' \<mapsto> PBool True]
     = Inr \<lparr>designation = ''2020 AB'', name = PStr ''Apophis'', diameter = NaN,
            hazardous = PBool True, approaches = []\<rparr>
   \<and> ''diameter'' \<notin> dom [''name'' \<mapsto> PStr ''Apophis'', ''hazardous'' \<mapsto> PBool True]
   \<and> NearEarthObject_str \<lparr>designation = ''2020 AB'', name = PStr ''Apophis'', diameter = NaN,
                           hazardous = PBool True, approaches = []\<rparr>
       = ''A NearEarthObject with designation 2020 AB. It's name is Apophis It is endangering us all!''
   \<and> NearEarthObject_str eros
       = ''A NearEarthObject with designation 433. It's name is Eros It has a diameter of 16.84m. It is harmless.''"
proof -
  let ?info = "[''name'' \<mapsto> PStr ''Apophis'', ''hazardous'' \<mapsto> PBool True]"
  let ?n = "\<lparr>designation = ''2020 AB'', name = PStr ''Apophis'', diameter = NaN,
            hazardous = PBool True, approaches = []\<rparr>"
  have h1: "NearEarthObject_init (PStr ''2020 AB'') ?info = Inr ?n"
    by (simp add: NearEarthObject_init_def)
  have h2: "''diameter'' \<notin> dom ?info" by simp
  have a: "NearEarthObject_str ?n
       = ''A NearEarthObject with designation 2020 AB. It's name is Apophis It is endangering us all!''"
    using h1 h2 NearEarthObject_str_clauses [of ?n "PStr ''2020 AB''" ?info ?n] by simp
  have b: "NearEarthObject_str eros
       = ''A NearEarthObject with designation 433. It's name is Eros It has a diameter of 16.84m. It is harmless.''"
    by code_simp
  show ?thesis using h1 h2 a b by simp
qed

subsection \<open>The rendering of a close approach\<close>

lemma float_gt_zero:
  "float_gt x (Fin False 0 0)
     \<longleftrightarrow> (case x of Fin neg m e \<Rightarrow> \<not> neg \<and> 0 < m | Inf neg \<Rightarrow> \<not> neg | NaN \<Rightarrow> False)"
  by (cases x) (auto simp: dec_less_def signed_mant_def Let_def zero_less_mult_iff)

lemma CloseApproach_str_closed:
  "CloseApproach_str a =
     ''A CloseApproach of '' @ py_str (priv_designation a) @ '' that happened on ''
     @ datetime_to_str (time a) @ ''.''
     @ (if float_gt (velocity a) (Fin False 0 0)
        then '' The velocity was '' @ float_repr (velocity a) else [])
     @ (if float_gt (distance a) (Fin False 0 0)
        then '' The distance was '' @ float_repr (distance a) else [])"
  by (simp add: CloseApproach_str_def time_str_def)

lemma CloseApproach_init_explicit_zero:
  "CloseApproach_init desig tm (info(''distance'' \<mapsto> PFloat (Fin False 0 0)))
     = CloseApproach_init desig tm (info(''distance'' := None))"
  "CloseApproach_init desig tm (info(''velocity'' \<mapsto> PFloat (Fin False 0 0)))
     = CloseApproach_init desig tm (info(''velocity'' := None))"
  by (auto simp: CloseApproach_init_def split: sum.splits)

text \<open>
  C7. The rendering \<open>str\<close> of a close approach has a velocity clause exactly when the
  velocity is greater than \<open>0.0\<close> and a distance clause exactly when the distance is
  greater than \<open>0.0\<close>, which holds for the positive values only. An approach
  constructed with an explicit distance (or velocity) of \<open>0.0\<close> is the same object as
  one constructed without it, so the two render equally.
\<close>

theorem CloseApproach_str_zero_like_omitted:
  "CloseApproach_str a =
     ''A CloseApproach of '' @ py_str (priv_designation a) @ '' that happened on ''
     @ datetime_to_str (time a) @ ''.''
     @ (if float_gt (velocity a) (Fin False 0 0)
        then '' The velocity was '' @ float_repr (velocity a) else [])
     @ (if float_gt (distance a) (Fin False 0 0)
        then '' The distance was '' @ float_repr (distance a) else [])
   \<and> (float_gt x (Fin False 0 0)
        \<longleftrightarrow> (case x of Fin neg m e \<Rightarrow> \<not> neg \<and> 0 < m | Inf neg \<Rightarrow> \<not> neg | NaN \<Rightarrow> False))
   \<and> map_sum id CloseApproach_str
        (CloseApproach_init desig tm (info(''distance'' \<mapsto> PFloat (Fin False 0 0))))
      = map_sum id CloseApproach_str
          (CloseApproach_init desig tm (info(''distance'' := None)))
   \<and> map_sum id CloseApproach_str
        (CloseApproach_init desig tm (info(''velocity'' \<mapsto> PFloat (Fin False 0 0))))
      = map_sum id CloseApproach_str
          (CloseApproach_init desig tm (info(''velocity'' := None)))"
  using CloseApproach_str_closed [of a] float_gt_zero [of x]
  by (simp only: CloseApproach_init_explicit_zero simp_thms)

theorem CloseApproach_str_zero_like_omitted_witness:
  "map_sum id CloseApproach_str
     (CloseApproach_init (PStr ''433'') ''1900-01-01 00:27''
        [''velocity'' \<mapsto> PFloat (Fin False 1675 (- 2)), ''distance'' \<mapsto> PFloat (Fin False 0 0)])
   = Inr ''A CloseApproach of 433 that happened on 1900-01-01 00:27. The velocity was 16.75''
   \<and> map_sum id CloseApproach_str
     (CloseApproach_init (PStr ''433'') ''1900-01-01 00:27''
        [''velocity'' \<mapsto> PFloat (Fin False 1675 (- 2))])
   = Inr ''A CloseApproach of 433 that happened on 1900-01-01 00:27. The velocity was 16.75''"
proof -
  let ?info = "[''velocity'' \<mapsto> PFloat (Fin False 1675 (- 2))]"
  let ?a = "\<lparr>priv_designation = PStr ''433'',
      time = \<lparr>year = 1900, month = 1, day = 1, hour = 0, minute = 27, second = 0,
               microsecond = 0\<rparr>,
      distance = Fin False 0 0, velocity = Fin False 1675 (- 2), neo = None\<rparr>"
  have t: "cd_to_datetime ''1900-01-01 00:27''
      = Inr \<lparr>year = 1900, month = 1, day = 1, hour = 0, minute = 27, second = 0,
             microsecond = 0\<rparr>"
    by code_simp
  have om: "CloseApproach_init (PStr ''433'') ''1900-01-01 00:27'' ?info = Inr ?a"
    by (simp add: CloseApproach_init_def t)
  have up: "?info(''distance'' := None) = ?info" by (rule ext) simp
  have st: "CloseApproach_str ?a
      = ''A CloseApproach of 433 that happened on 1900-01-01 00:27. The velocity was 16.75''"
    by code_simp
  have eq: "map_sum id CloseApproach_str
        (CloseApproach_init (PStr ''433'') ''1900-01-01 00:27''
           (?info(''distance'' \<mapsto> PFloat (Fin False 0 0))))
      = map_sum id CloseApproach_str
          (CloseApproach_init (PStr ''433'') ''1900-01-01 00:27'' (?info(''distance'' := None)))"
    using CloseApproach_str_zero_like_omitted
      [of ?a "Fin False 1675 (- 2)" "PStr ''433''" "''1900-01-01 00:27''" ?info]
    by blast
  have e1: "map_sum id CloseApproach_str
        (CloseApproach_init (PStr ''433'') ''1900-01-01 00:27''
           (?info(''distance'' \<mapsto> PFloat (Fin False 0 0))))
      = map_sum id CloseApproach_str
          (CloseApproach_init (PStr ''433'') ''1900-01-01 00:27'' ?info)"
    using eq unfolding up .
  have e2: "map_sum id CloseApproach_str
          (CloseApproach_init (PStr ''433'') ''1900-01-01 00:27'' ?info)
      = Inr ''A CloseApproach of 433 that happened on 1900-01-01 00:27. The velocity was 16.75''"
    by (simp only: om map_sum.simps st)
  show ?thesis unfolding e1 e2 by simp
qed

subsection \<open>Construction\<close>

lemma CloseApproach_init_time_error:
  "cd_to_datetime tm = Inl err \<Longrightarrow> CloseApproach_init desig tm info = Inl err"
  by (simp add: CloseApproach_init_def)

lemma CloseApproach_init_distance_error:
  "info ''distance'' = Some v \<Longrightarrow> py_float v = Inl err
    \<Longrightarrow> \<exists>e. CloseApproach_init desig tm info = Inl e"
  by (auto simp: CloseApproach_init_def dom_def split: sum.splits)

lemma CloseApproach_init_velocity_error:
  "info ''velocity'' = Some v \<Longrightarrow> py_float v = Inl err
    \<Longrightarrow> \<exists>e. CloseApproach_init desig tm info = Inl e"
  by (auto simp: CloseApproach_init_def dom_def split: sum.splits)

lemma NearEarthObject_init_diameter_error:
  "info ''diameter'' = Some v \<Longrightarrow> py_float v = Inl err
    \<Longrightarrow> \<exists>e. NearEarthObject_init desig info = Inl e"
  by (cases desig) (auto simp: NearEarthObject_init_def dom_def Let_def)

lemma CloseApproach_init_success:
  assumes "CloseApproach_init desig tm info = Inr a"
  shows "cd_to_datetime tm = Inr (time a)
     \<and> (case info ''distance'' of None \<Rightarrow> distance a = Fin False 0 0
         | Some v \<Rightarrow> py_float v = Inr (distance a))
     \<and> (case info ''velocity'' of None \<Rightarrow> velocity a = Fin False 0 0
         | Some v \<Rightarrow> py_float v = Inr (velocity a))
     \<and> priv_designation a = desig \<and> neo a = None"
  using assms
  by (auto simp: CloseApproach_init_def dom_def split: sum.splits if_splits option.splits)

lemma NearEarthObject_init_success:
  assumes "NearEarthObject_init desig info = Inr n"
  shows "desig = PStr (designation n)
     \<and> (case info ''diameter'' of None \<Rightarrow> diameter n = NaN
         | Some v \<Rightarrow> py_float v = Inr (diameter n))
     \<and> approaches n = []"
  using assms
  by (cases desig)
     (auto simp: NearEarthObject_init_def dom_def Let_def split: sum.splits if_splits option.splits)

text \<open>
  C8. Construction fails at once on a bad value and substitutes nothing for it: when
  the date parser raises on the time string, constructing the close approach raises
  the same error; when a supplied distance, velocity or diameter does not convert to
  float, construction raises. When construction succeeds, the time is what the parser
  returned, and the distance, the velocity and the diameter are the converted values
  where they were supplied; only where they were absent are they the defaults \<open>0.0\<close>,
  \<open>0.0\<close> and not-a-number. (The attributes read here are the ones that are parsed or
  converted; \<open>name\<close> and \<open>hazardous\<close> are stored as given.)
\<close>

theorem construction_errors:
  "(cd_to_datetime tm = Inl err \<longrightarrow> CloseApproach_init desig tm info = Inl err)
   \<and> (info ''distance'' = Some v \<longrightarrow> py_float v = Inl err \<longrightarrow>
        (\<exists>e. CloseApproach_init desig tm info = Inl e))
   \<and> (info ''velocity'' = Some v \<longrightarrow> py_float v = Inl err \<longrightarrow>
        (\<exists>e. CloseApproach_init desig tm info = Inl e))
   \<and> (info ''diameter'' = Some v \<longrightarrow> py_float v = Inl err \<longrightarrow>
        (\<exists>e. NearEarthObject_init desig info = Inl e))
   \<and> (CloseApproach_init desig tm info = Inr a \<longrightarrow>
        cd_to_datetime tm = Inr (time a)
        \<and> (case info ''distance'' of None \<Rightarrow> distance a = Fin False 0 0
            | Some v \<Rightarrow> py_float v = Inr (distance a))
        \<and> (case info ''velocity'' of None \<Rightarrow> velocity a = Fin False 0 0
            | Some v \<Rightarrow> py_float v = Inr (velocity a)))
   \<and> (NearEarthObject_init desig info = Inr n \<longrightarrow>
        (case info ''diameter'' of None \<Rightarrow> diameter n = NaN
         | Some v \<Rightarrow> py_float v = Inr (diameter n)))"
  using CloseApproach_init_time_error [of tm err desig info]
    CloseApproach_init_distance_error [of info v err desig tm]
    CloseApproach_init_velocity_error [of info v err desig tm]
    NearEarthObject_init_diameter_error [of info v err desig]
    CloseApproach_init_success [of desig tm info a]
    NearEarthObject_init_success [of desig info n]
  by blast

theorem construction_errors_witness:
  "cd_to_datetime ''1900-02-30 00:27'' = Inl ValueError
   \<and> CloseApproach_init (PStr ''433'') ''1900-02-30 00:27'' Map.empty = Inl ValueError
   \<and> [''distance'' \<mapsto> PStr ''far''] ''distance'' = Some (PStr ''far'')
   \<and> py_float (PStr ''far'') = Inl ValueError
   \<and> (\<exists>e. CloseApproach_init (PStr ''433'') ''1900-01-01 00:27'' [''distance'' \<mapsto> PStr ''far'']
            = Inl e)
   \<and> [''velocity'' \<mapsto> PNone] ''velocity'' = Some PNone
   \<and> py_float PNone = Inl TypeError
   \<and> (\<exists>e. CloseApproach_init (PStr ''433'') ''1900-01-01 00:27'' [''velocity'' \<mapsto> PNone] = Inl e)
   \<and> [''diameter'' \<mapsto> PStr ''''] ''diameter'' = Some (PStr '''')
   \<and> py_float (PStr '''') = Inl ValueError
   \<and> (\<exists>e. NearEarthObject_init (PStr ''433'') [''diameter'' \<mapsto> PStr ''''] = Inl e)
   \<and> CloseApproach_init (PStr ''433'') ''1900-01-01 00:27'' [''distance'' \<mapsto> PStr ''0.0865'']
       = Inr \<lparr>priv_designation = PStr ''433'',
              time = \<lparr>year = 1900, month = 1, day = 1, hour = 0, minute = 27, second = 0,
                       microsecond = 0\<rparr>,
              distance = Fin False 865 (- 4), velocity = Fin False 0 0, neo = None\<rparr>
   \<and> NearEarthObject_init (PStr ''433'') Map.empty
       = Inr \<lparr>designation = ''433'', name = PNone, diameter = NaN, hazardous = PBool False,
              approaches = []\<rparr>"
proof -
  have bad: "cd_to_datetime ''1900-02-30 00:27'' = Inl ValueError" by code_simp
  have good: "cd_to_datetime ''1900-01-01 00:27''
      = Inr \<lparr>year = 1900, month = 1, day = 1, hour = 0, minute = 27, second = 0,
             microsecond = 0\<rparr>"
    by code_simp
  have f1: "py_float (PStr ''far'') = Inl ValueError" by code_simp
  have f2: "py_float PNone = Inl TypeError" by simp
  have f3: "py_float (PStr '''') = Inl ValueError" by code_simp
  have f4: "py_float (PStr ''0.0865'') = Inr (Fin False 865 (- 4))" by code_simp
  have k1: "[''distance'' \<mapsto> PStr ''far''] ''distance'' = Some (PStr ''far'')" by simp
  have k2: "[''velocity'' \<mapsto> PNone] ''velocity'' = Some PNone" by simp
  have k3: "[''diameter'' \<mapsto> PStr ''''] ''diameter'' = Some (PStr '''')" by simp
  have c1: "CloseApproach_init (PStr ''433'') ''1900-02-30 00:27'' Map.empty = Inl ValueError"
    using bad construction_errors [of "''1900-02-30 00:27''" ValueError "PStr ''433''" Map.empty]
    by blast
  have c2: "\<exists>e. CloseApproach_init (PStr ''433'') ''1900-01-01 00:27'' [''distance'' \<mapsto> PStr ''far'']
      = Inl e"
    using k1 f1
      construction_errors [of "''1900-01-01 00:27''" ValueError "PStr ''433''"
        "[''distance'' \<mapsto> PStr ''far'']" "PStr ''far''"]
    by blast
  have c3: "\<exists>e. CloseApproach_init (PStr ''433'') ''1900-01-01 00:27'' [''velocity'' \<mapsto> PNone]
      = Inl e"
    using k2 f2
      construction_errors [of "''1900-01-01 00:27''" TypeError "PStr ''433''"
        "[''velocity'' \<mapsto> PNone]" PNone]
    by blast
  have c4: "\<exists>e. NearEarthObject_init (PStr ''433'') [''diameter'' \<mapsto> PStr ''''] = Inl e"
    using k3 f3
      construction_errors [of "''1900-01-01 00:27''" ValueError "PStr ''433''"
        "[''diameter'' \<mapsto> PStr '''']" "PStr ''''"]
    by blast
  have c5: "CloseApproach_init (PStr ''433'') ''1900-01-01 00:27'' [''distance'' \<mapsto> PStr ''0.0865'']
       = Inr \<lparr>priv_designation = PStr ''433'',
              time = \<lparr>year = 1900, month = 1, day = 1, hour = 0, minute = 27, second = 0,
                       microsecond = 0\<rparr>,
              distance = Fin False 865 (- 4), velocity = Fin False 0 0, neo = None\<rparr>"
    by (simp add: CloseApproach_init_def good f4 del: py_float.simps)
  have c6: "NearEarthObject_init (PStr ''433'') Map.empty
       = Inr \<lparr>designation = ''433'', name = PNone, diameter = NaN, hazardous = PBool False,
              approaches = []\<rparr>"
    by (simp add: NearEarthObject_init_def)
  show ?thesis
    using bad c1 k1 f1 c2 k2 f2 c3 k3 f3 c4 c5 c6 by blast
qed

text \<open>
  C10. Constructing a near-Earth object with a designation that is not a string fails
  on the assertion, whatever else is supplied. With a string designation, construction
  succeeds whenever the diameter is absent or converts to float, and the object then
  carries that designation.
\<close>

theorem NearEarthObject_init_designation:
  "((\<forall>d. desig \<noteq> PStr d) \<longrightarrow> NearEarthObject_init desig info = Inl AssertionError)
   \<and> (desig = PStr d \<longrightarrow>
        (case info ''diameter'' of None \<Rightarrow> True | Some v \<Rightarrow> \<exists>x. py_float v = Inr x) \<longrightarrow>
        (\<exists>n. NearEarthObject_init desig info = Inr n \<and> designation n = d))
   \<and> (NearEarthObject_init desig info = Inr n \<longrightarrow> desig = PStr (designation n))"
proof -
  have a: "(\<forall>d. desig \<noteq> PStr d) \<longrightarrow> NearEarthObject_init desig info = Inl AssertionError"
    by (cases desig) (simp_all add: NearEarthObject_init_def)
  have b: "desig = PStr d \<longrightarrow>
        (case info ''diameter'' of None \<Rightarrow> True | Some v \<Rightarrow> \<exists>x. py_float v = Inr x) \<longrightarrow>
        (\<exists>n. NearEarthObject_init desig info = Inr n \<and> designation n = d)"
    by (auto simp: NearEarthObject_init_def dom_def Let_def split: option.splits)
  have c: "NearEarthObject_init desig info = Inr n \<longrightarrow> desig = PStr (designation n)"
    using NearEarthObject_init_success [of desig info n] by blast
  from a b c show ?thesis by blast
qed

theorem NearEarthObject_init_designation_witness:
  "(\<forall>d. PInt 433 \<noteq> PStr d)
   \<and> NearEarthObject_init (PInt 433) [''name'' \<mapsto> PStr ''Eros''] = Inl AssertionError
   \<and> NearEarthObject_init PNone Map.empty = Inl AssertionError
   \<and> py_float (PStr ''16.84'') = Inr (Fin False 1684 (- 2))
   \<and> (\<exists>n. NearEarthObject_init (PStr ''433'') [''diameter'' \<mapsto> PStr ''16.84''] = Inr n
          \<and> designation n = ''433'')"
proof -
  have h1: "\<forall>d. PInt 433 \<noteq> PStr d" by simp
  have h2: "\<forall>d. PNone \<noteq> PStr d" by simp
  have f: "py_float (PStr ''16.84'') = Inr (Fin False 1684 (- 2))" by code_simp
  have g: "case [''diameter'' \<mapsto> PStr ''16.84''] ''diameter'' of None \<Rightarrow> True
      | Some v \<Rightarrow> \<exists>x. py_float v = Inr x"
    using f by simp
  have c1: "NearEarthObject_init (PInt 433) [''name'' \<mapsto> PStr ''Eros''] = Inl AssertionError"
    using h1 NearEarthObject_init_designation [of "PInt 433" "[''name'' \<mapsto> PStr ''Eros'']"]
    by blast
  have c2: "NearEarthObject_init PNone Map.empty = Inl AssertionError"
    using h2 NearEarthObject_init_designation [of PNone Map.empty] by blast
  have c3: "\<exists>n. NearEarthObject_init (PStr ''433'') [''diameter'' \<mapsto> PStr ''16.84''] = Inr n
          \<and> designation n = ''433''"
    using g NearEarthObject_init_designation
      [of "PStr ''433''" "[''diameter'' \<mapsto> PStr ''16.84'']" "''433''"]
    by blast
  show ?thesis using h1 c1 c2 f c3 by blast
qed

subsection \<open>End to end: Eros\<close>

text \<open>
  C1. The NEO constructed with designation \<open>"433"\<close>, name \<open>"Eros"\<close>, diameter \<open>16.84\<close> and
  hazardous false, and the close approach constructed with designation \<open>"433"\<close>, time
  \<open>"1900-01-01 00:27"\<close>, distance \<open>0.0865\<close> and velocity \<open>16.75\<close>, are linked;
  \<open>write_to_json\<close> on the list of that one approach raises nothing and writes exactly
  the array of one object that the spec gives.
\<close>

theorem end_to_end_json:
  \<open>\<exists>n a s'.
      NearEarthObject_init (PStr ''433'')
        [''name'' \<mapsto> PStr ''Eros'', ''diameter'' \<mapsto> PFloat (Fin False 1684 (- 2)),
         ''hazardous'' \<mapsto> PBool False] = Inr n
    \<and> CloseApproach_init (PStr ''433'') ''1900-01-01 00:27''
        [''distance'' \<mapsto> PFloat (Fin False 865 (- 4)),
         ''velocity'' \<mapsto> PFloat (Fin False 1675 (- 2))] = Inr a
    \<and> write_to_json
        (link 0 0 \<lparr>neo_objs = [0 \<mapsto> n], ca_objs = [0 \<mapsto> a], files = Map.empty,
                    unwritable = {}\<rparr>)
        [0] filename = (None, s')
    \<and> files s' filename =
        Some ''[{"datetime_utc": "1900-01-01 00:27", "distance_au": 0.0865, "velocity_km_s": 16.75, "neo": {"designation": "433", "name": "Eros", "diameter_km": 16.84, "potentially_hazardous": false}}]''\<close>
proof -
  let ?t = "\<lparr>year = 1900, month = 1, day = 1, hour = 0, minute = 27, second = 0,
             microsecond = 0\<rparr>"
  let ?n = "\<lparr>designation = ''433'', name = PStr ''Eros'', diameter = Fin False 1684 (- 2),
            hazardous = PBool False, approaches = []\<rparr>"
  let ?a = "\<lparr>priv_designation = PStr ''433'', time = ?t,
            distance = Fin False 865 (- 4), velocity = Fin False 1675 (- 2), neo = None\<rparr>"
  let ?s = "link 0 0 \<lparr>neo_objs = [0 \<mapsto> ?n], ca_objs = [0 \<mapsto> ?a], files = Map.empty,
                      unwritable = {}\<rparr>"
  let ?obj = "JDict [(''datetime_utc'', JVal (PStr (datetime_to_str ?t))),
                    (''distance_au'', JVal (PFloat (Fin False 865 (- 4)))),
                    (''velocity_km_s'', JVal (PFloat (Fin False 1675 (- 2)))),
                    (''neo'', JDict [(''designation'', JVal (PStr ''433'')),
                                    (''name'', JVal (PStr ''Eros'')),
                                    (''diameter_km'', JVal (PFloat (Fin False 1684 (- 2)))),
                                    (''potentially_hazardous'', JVal (PBool False))])]"
  have t: "cd_to_datetime ''1900-01-01 00:27'' = Inr ?t" by code_simp
  have n: "NearEarthObject_init (PStr ''433'')
        [''name'' \<mapsto> PStr ''Eros'', ''diameter'' \<mapsto> PFloat (Fin False 1684 (- 2)),
         ''hazardous'' \<mapsto> PBool False] = Inr ?n"
    by (simp add: NearEarthObject_init_def)
  have a: "CloseApproach_init (PStr ''433'') ''1900-01-01 00:27''
        [''distance'' \<mapsto> PFloat (Fin False 865 (- 4)),
         ''velocity'' \<mapsto> PFloat (Fin False 1675 (- 2))] = Inr ?a"
    by (simp add: CloseApproach_init_def t)
  have w: "filename \<notin> unwritable ?s" by (simp add: link_def)
  have fs: "files ?s filename = None" by (simp add: link_def)
  have c: "ca_objs ?s 0 = Some (?a\<lparr>neo := Some 0\<rparr>)" by (simp add: link_def)
  have c': "neo (?a\<lparr>neo := Some 0\<rparr>) = Some 0" by simp
  have d: "neo_objs ?s 0 = Some (?n\<lparr>approaches := [0]\<rparr>)" by (simp add: link_def)
  have obj: "json_obj ?s 0 = Inr ?obj"
    using json_obj_linked [OF c c' d] by simp
  have dumped: \<open>json_dumps (JList [?obj]) =
      ''[{"datetime_utc": "1900-01-01 00:27", "distance_au": 0.0865, "velocity_km_s": 16.75, "neo": {"designation": "433", "name": "Eros", "diameter_km": 16.84, "potentially_hazardous": false}}]''\<close>
    by code_simp
  have run: "write_to_json ?s [0] filename
      = (None, ?s\<lparr>files := (files ?s)(filename \<mapsto> json_dumps (JList [?obj]))\<rparr>)"
    by (rule write_to_json_single [OF w obj])
  have out: "files (?s\<lparr>files := (files ?s)(filename \<mapsto> json_dumps (JList [?obj]))\<rparr>) filename
      = Some (json_dumps (JList [?obj]))"
    by simp
  have out': \<open>files (?s\<lparr>files := (files ?s)(filename \<mapsto> json_dumps (JList [?obj]))\<rparr>) filename =
      Some ''[{"datetime_utc": "1900-01-01 00:27", "distance_au": 0.0865, "velocity_km_s": 16.75, "neo": {"designation": "433", "name": "Eros", "diameter_km": 16.84, "potentially_hazardous": false}}]''\<close>
    by (rule trans [OF out arg_cong [where f = Some, OF dumped]])
  show ?thesis
    by (rule exI [of _ ?n], rule exI [of _ ?a],
        rule exI [of _ "?s\<lparr>files := (files ?s)(filename \<mapsto> json_dumps (JList [?obj]))\<rparr>"],
        intro conjI, rule n, rule a, rule run, rule out')
qed

end
